theory Spec2Isabelle
  imports Main "HOL-Library.Char_ord" "HOL-Library.Sublist" "HOL-Library.Multiset"
begin

section \<open>JavaScript values, strings and errors\<close>

text \<open>
  The program is TypeScript. Its strings are modelled as \<^typ>\<open>string\<close>: every
  \<^typ>\<open>char\<close> stands for one UTF-16 code unit in the range 0..255 (ASCII and the
  Latin-1 block), so \<open>length\<close> is the \<open>.length\<close> of the source and equality is the
  \<open>===\<close> of the source. Code units above 255 are outside the model. Numbers are
  modelled as \<^typ>\<open>int\<close> (the integral JavaScript numbers); a \<open>throw\<close> is the
  \<open>Inl\<close> of a sum, \<open>undefined\<close> as a result is \<open>None\<close>.
\<close>

datatype jsvalue =
    JUndefined
  | JNull
  | JBoolean bool
  | JNumber int
  | JString string
  | JObject

datatype error =
    ChannelNotAllowedError string
  | XPathValidationError string "string list"
  | XPathComplexityError string
  | RangeError string
  | Error string

text \<open>Decimal rendering of an integral number, as in a template literal.\<close>

fun digitsOf :: "nat \<Rightarrow> string" where
  "digitsOf n =
     (if n < 10 then [char_of (48 + n)]
      else digitsOf (n div 10) @ [char_of (48 + n mod 10)])"

declare digitsOf.simps [simp del]

definition numberToString :: "int \<Rightarrow> string" where
  "numberToString i = (if i < 0 then CHR ''-'' # digitsOf (nat (- i)) else digitsOf (nat i))"

text \<open>\<open>String(v)\<close> for the values of \<^typ>\<open>jsvalue\<close>; \<open>JObject\<close> is a plain object.\<close>

fun String_js :: "jsvalue \<Rightarrow> string" where
  "String_js JUndefined = ''undefined''"
| "String_js JNull = ''null''"
| "String_js (JBoolean b) = (if b then ''true'' else ''false'')"
| "String_js (JNumber n) = numberToString n"
| "String_js (JString s) = s"
| "String_js JObject = ''[object Object]''"

section \<open>JavaScript strings and regular expressions\<close>

text \<open>
  The built-ins the program calls, on code units 0..255. White space is the set that both
  \<open>String.prototype.trim\<close> and the class \<open>\s\<close> use: TAB, LF, VT, FF, CR, SPACE and
  NBSP (the other members are above 255).
\<close>

definition isWhiteSpace :: "char \<Rightarrow> bool" where
  "isWhiteSpace c = ((CHR 0x09 \<le> c \<and> c \<le> CHR 0x0D) \<or> c = CHR 0x20 \<or> c = CHR 0xA0)"

definition isDigit :: "char \<Rightarrow> bool" where
  "isDigit c = (CHR ''0'' \<le> c \<and> c \<le> CHR ''9'')"

definition isWordChar :: "char \<Rightarrow> bool" where
  "isWordChar c =
     ((CHR ''a'' \<le> c \<and> c \<le> CHR ''z'') \<or> (CHR ''A'' \<le> c \<and> c \<le> CHR ''Z'') \<or>
      isDigit c \<or> c = CHR ''_'')"

definition trim :: "string \<Rightarrow> string" where
  "trim s = rev (dropWhile isWhiteSpace (rev (dropWhile isWhiteSpace s)))"

text \<open>
  \<open>toLowerCase\<close>: the letters A-Z and the Latin-1 capitals 0xC0-0xDE (without the
  multiplication sign 0xD7) move up by 32; every other code unit below 256 is unchanged.
\<close>

definition lowerChar :: "char \<Rightarrow> char" where
  "lowerChar c =
     (if (CHR ''A'' \<le> c \<and> c \<le> CHR ''Z'') \<or> (CHR 0xC0 \<le> c \<and> c \<le> CHR 0xDE \<and> c \<noteq> CHR 0xD7)
      then char_of (of_char c + (32::nat)) else c)"

definition toLowerCase :: "string \<Rightarrow> string" where
  "toLowerCase s = map lowerChar s"

text \<open>
  The canonical form of a code unit under the flag \<open>i\<close> (without the flag \<open>u\<close>): its
  upper case, when that is one code unit and does not turn a code unit above 127 into
  one below 128. On 0..255 the lower-case letters move down by 32; 0xDF, 0xB5 and 0xFF are
  canonical for themselves within this range.
\<close>

definition canonicalize :: "char \<Rightarrow> char" where
  "canonicalize c =
     (if (CHR ''a'' \<le> c \<and> c \<le> CHR ''z'') \<or> (CHR 0xE0 \<le> c \<and> c \<le> CHR 0xFE \<and> c \<noteq> CHR 0xF7)
      then char_of (of_char c - (32::nat)) else c)"

text \<open>\<open>String.prototype.startsWith\<close> and \<open>String.prototype.includes\<close>.\<close>

fun startsWith :: "string \<Rightarrow> string \<Rightarrow> bool" where
  "startsWith s [] = True"
| "startsWith [] (p # ps) = False"
| "startsWith (x # xs) (p # ps) = (x = p \<and> startsWith xs ps)"

fun stringIncludes :: "string \<Rightarrow> string \<Rightarrow> bool" where
  "stringIncludes [] p = (p = [])"
| "stringIncludes (x # xs) p = (startsWith (x # xs) p \<or> stringIncludes xs p)"

text \<open>
  The regular expressions of the program use literals, character classes, the greedy
  quantifiers \<open>*\<close> and \<open>+\<close> on one literal or class, the assertions \<open>\b\<close>, \<open>^\<close> and \<open>$\<close>,
  and one capture group; an expression is a sequence of such nodes. \<open>matchHere\<close> is the
  backtracking matcher at one position: it returns the text each node consumed in the
  first successful alternative, the longer repetition being tried first. \<open>prev\<close> is the
  code unit before the position (\<open>None\<close> at index 0).
\<close>

datatype classItem = ISpace | IWord | IDigit | IChar char

datatype atom = Lit char | Cls bool "classItem list"

datatype node = One atom | Star atom | Plus atom | WordB | Bol | Eol | Cap node

record RegExp =
  source :: string
  ignoreCase :: bool
  nodes :: "node list"

fun itemMatches :: "bool \<Rightarrow> classItem \<Rightarrow> char \<Rightarrow> bool" where
  "itemMatches ic ISpace x = isWhiteSpace x"
| "itemMatches ic IWord x = isWordChar x"
| "itemMatches ic IDigit x = isDigit x"
| "itemMatches ic (IChar c) x = (if ic then canonicalize c = canonicalize x else c = x)"

fun atomMatches :: "bool \<Rightarrow> atom \<Rightarrow> char \<Rightarrow> bool" where
  "atomMatches ic (Lit c) x = (if ic then canonicalize c = canonicalize x else c = x)"
| "atomMatches ic (Cls negated items) x = (list_ex (\<lambda>i. itemMatches ic i x) items \<noteq> negated)"

definition atWordBoundary :: "char option \<Rightarrow> string \<Rightarrow> bool" where
  "atWordBoundary prev s =
     ((case prev of None \<Rightarrow> False | Some p \<Rightarrow> isWordChar p) \<noteq>
      (case s of [] \<Rightarrow> False | x # xs \<Rightarrow> isWordChar x))"

fun matchHere :: "bool \<Rightarrow> node list \<Rightarrow> char option \<Rightarrow> string \<Rightarrow> string list option" where
  "matchHere ic [] prev s = Some []"
| "matchHere ic (One a # r) prev [] = None"
| "matchHere ic (One a # r) prev (x # xs) =
     (if atomMatches ic a x then map_option ((#) [x]) (matchHere ic r (Some x) xs) else None)"
| "matchHere ic (Star a # r) prev [] = map_option ((#) []) (matchHere ic r prev [])"
| "matchHere ic (Star a # r) prev (x # xs) =
     (if atomMatches ic a x
      then (case matchHere ic (Star a # r) (Some x) xs of
              Some (g # gs) \<Rightarrow> Some ((x # g) # gs)
            | _ \<Rightarrow> map_option ((#) []) (matchHere ic r prev (x # xs)))
      else map_option ((#) []) (matchHere ic r prev (x # xs)))"
| "matchHere ic (Plus a # r) prev [] = None"
| "matchHere ic (Plus a # r) prev (x # xs) =
     (if atomMatches ic a x
      then (case matchHere ic (Star a # r) (Some x) xs of
              Some (g # gs) \<Rightarrow> Some ((x # g) # gs)
            | _ \<Rightarrow> None)
      else None)"
| "matchHere ic (WordB # r) prev s =
     (if atWordBoundary prev s then map_option ((#) []) (matchHere ic r prev s) else None)"
| "matchHere ic (Bol # r) prev s =
     (if prev = None then map_option ((#) []) (matchHere ic r prev s) else None)"
| "matchHere ic (Eol # r) prev s =
     (if s = [] then map_option ((#) []) (matchHere ic r prev s) else None)"
| "matchHere ic (Cap n # r) prev s = matchHere ic (n # r) prev s"

text \<open>The search for the leftmost match, from index 0 on.\<close>

fun searchFrom :: "bool \<Rightarrow> node list \<Rightarrow> char option \<Rightarrow> string \<Rightarrow> string list option" where
  "searchFrom ic ns prev [] = matchHere ic ns prev []"
| "searchFrom ic ns prev (x # xs) =
     (case matchHere ic ns prev (x # xs) of
        Some g \<Rightarrow> Some g
      | None \<Rightarrow> searchFrom ic ns (Some x) xs)"

definition exec :: "RegExp \<Rightarrow> string \<Rightarrow> string list option" where
  "exec re s = searchFrom (ignoreCase re) (nodes re) None s"

text \<open>\<open>RegExp.prototype.test\<close> (no expression tested here has the flag \<open>g\<close>).\<close>

definition test :: "RegExp \<Rightarrow> string \<Rightarrow> bool" where
  "test re s = (exec re s \<noteq> None)"

fun isCap :: "node \<Rightarrow> bool" where
  "isCap (Cap n) = True"
| "isCap n = False"

text \<open>
  \<open>s.match(re)\<close> for an expression without the flag \<open>g\<close> and with one capture group:
  \<open>None\<close> is \<open>null\<close>, \<open>Some g\<close> gives the text of group 1.
\<close>

definition matchGroup1 :: "string \<Rightarrow> RegExp \<Rightarrow> string option" where
  "matchGroup1 s re =
     (case exec re s of
        None \<Rightarrow> None
      | Some gs \<Rightarrow> Some (concat (map snd (filter (\<lambda>(n, g). isCap n) (zip (nodes re) gs)))))"

section \<open>types.ts\<close>

definition ALLOWED_CHANNELS :: "string list" where
  "ALLOWED_CHANNELS = [''System'', ''Application'']"

record Config =
  maxEventsPerQuery :: int
  maxTimeRangeHours :: int
  queryTimeoutMs :: int
  xpathMaxLength :: int

definition DEFAULT_CONFIG :: Config where
  "DEFAULT_CONFIG =
     \<lparr> maxEventsPerQuery = 1000,
       maxTimeRangeHours = 168,
       queryTimeoutMs = 30000,
       xpathMaxLength = 500 \<rparr>"

section \<open>security/channel-guard.ts\<close>

text \<open>
  \<open>ChannelNotAllowedError\<close> carries the constructor's argument; its message and its
  copy of the allowlist are functions of that argument and of \<open>ALLOWED_CHANNELS\<close>.
\<close>

text \<open>\<open>Array.prototype.includes\<close> on a list of strings or numbers.\<close>

fun arrayIncludes :: "'a list \<Rightarrow> 'a \<Rightarrow> bool" where
  "arrayIncludes [] y = False"
| "arrayIncludes (x # xs) y = (x = y \<or> arrayIncludes xs y)"

definition validateChannel :: "jsvalue \<Rightarrow> error + string" where
  "validateChannel channel =
     (case channel of
        JString s \<Rightarrow>
          if length s = 0 then Inl (ChannelNotAllowedError ''(empty)'')
          else if \<not> arrayIncludes ALLOWED_CHANNELS s then Inl (ChannelNotAllowedError s)
          else Inr s
      | _ \<Rightarrow> Inl (ChannelNotAllowedError (String_js channel)))"

definition isChannelAllowed :: "jsvalue \<Rightarrow> bool" where
  "isChannelAllowed channel =
     (case channel of JString s \<Rightarrow> arrayIncludes ALLOWED_CHANNELS s | _ \<Rightarrow> False)"

definition getAllowedChannels :: "string list" where
  "getAllowedChannels = ALLOWED_CHANNELS"


section \<open>security/xpath-validator.ts\<close>

text \<open>
  A \<open>RegExp\<close> literal is written as its source text, its flag \<open>i\<close> and its nodes.
  \<open>callPattern n\<close> is \<open>/\bn\s*\(/i\<close> and \<open>axisPattern n\<close> is \<open>/\bn\s*::/i\<close>, the two
  shapes of most entries of the blocklist. \<open>BS\<close> is the backslash.
\<close>

definition BS :: char where
  "BS = CHR 0x5C"

definition lits :: "string \<Rightarrow> node list" where
  "lits s = map (\<lambda>c. One (Lit c)) s"

definition spaces :: node where
  "spaces = Star (Cls False [ISpace])"

definition callPattern :: "string \<Rightarrow> RegExp" where
  "callPattern n =
     \<lparr> source = [BS, CHR ''b''] @ n @ [BS, CHR ''s'', CHR ''*'', BS, CHR ''(''],
       ignoreCase = True,
       nodes = [WordB] @ lits n @ [spaces, One (Lit (CHR ''(''))] \<rparr>"

definition axisPattern :: "string \<Rightarrow> RegExp" where
  "axisPattern n =
     \<lparr> source = [BS, CHR ''b''] @ n @ [BS, CHR ''s'', CHR ''*'', CHR '':'', CHR '':''],
       ignoreCase = True,
       nodes = [WordB] @ lits n @ [spaces, One (Lit (CHR '':'')), One (Lit (CHR '':''))] \<rparr>"

definition BLOCKED_PATTERNS :: "RegExp list" where
  "BLOCKED_PATTERNS =
     [ callPattern ''document'',
       callPattern ''doc'',
       callPattern ''concat'',
       callPattern ''string'',
       callPattern ''substring'',
       callPattern ''translate'',
       callPattern ''normalize-space'',
       callPattern ''contains'',
       callPattern ''starts-with'',
       callPattern ''string-length'',
       callPattern ''count'',
       callPattern ''sum'',
       callPattern ''floor'',
       callPattern ''ceiling'',
       callPattern ''round'',
       callPattern ''true'',
       callPattern ''false'',
       callPattern ''not'',
       callPattern ''boolean'',
       callPattern ''number'',
       callPattern ''id'',
       callPattern ''name'',
       callPattern ''local-name'',
       callPattern ''namespace-uri'',
       \<lparr> source = [BS, CHR ''$'', BS, CHR ''w'', CHR ''+''], ignoreCase = False,
         nodes = [One (Lit (CHR ''$'')), Plus (Cls False [IWord])] \<rparr>,
       axisPattern ''namespace'',
       axisPattern ''preceding'',
       axisPattern ''following'',
       axisPattern ''preceding-sibling'',
       axisPattern ''following-sibling'',
       axisPattern ''ancestor'',
       axisPattern ''descendant'',
       axisPattern ''ancestor-or-self'',
       axisPattern ''descendant-or-self'',
       \<lparr> source = [BS, CHR ''.'', BS, CHR ''.''], ignoreCase = False,
         nodes = [One (Lit (CHR ''.'')), One (Lit (CHR ''.''))] \<rparr>,
       callPattern ''comment'',
       callPattern ''processing-instruction'',
       callPattern ''text'',
       callPattern ''node'',
       \<lparr> source = [CHR ''['', CHR 0x27, CHR 0x22, CHR '']'', BS, CHR ''s'', CHR ''*'', BS, CHR '']'',
                   BS, CHR ''s'', CHR ''*'', BS, CHR ''[''],
         ignoreCase = False,
         nodes = [One (Cls False [IChar (CHR 0x27), IChar (CHR 0x22)]), spaces,
                  One (Lit (CHR '']'')), spaces, One (Lit (CHR ''[''))] \<rparr>,
       \<lparr> source = [CHR ''-'', CHR ''-''], ignoreCase = False,
         nodes = [One (Lit (CHR ''-'')), One (Lit (CHR ''-''))] \<rparr>,
       \<lparr> source = [BS, CHR ''/'', BS, CHR ''*''], ignoreCase = False,
         nodes = [One (Lit (CHR ''/'')), One (Lit (CHR ''*''))] \<rparr> ]"

text \<open>The character class of \<open>ALLOWED_STRUCTURE\<close>, item by item as the source lists it.\<close>

definition allowedClass :: atom where
  "allowedClass =
     Cls False
       [ISpace, IChar (CHR ''*''), IChar (CHR ''[''), IChar (CHR '']''), IChar (CHR ''/''),
        IChar (CHR ''(''), IChar (CHR '')''), IChar (CHR ''@''), IWord, IChar (CHR ''-''),
        IChar (CHR ''.''), IChar (CHR ''=''), IChar (CHR ''<''), IChar (CHR ''>''),
        IChar (CHR ''!''), IChar (CHR 0x27), IChar (CHR 0x22), IChar (CHR '':''), IDigit,
        ISpace, IChar (CHR '','')]"

definition ALLOWED_STRUCTURE :: RegExp where
  "ALLOWED_STRUCTURE =
     \<lparr> source =
         [CHR ''^'', CHR ''['', BS, CHR ''s'', BS, CHR ''*'', BS, CHR ''['', BS, CHR '']'', BS, CHR ''/'',
          BS, CHR ''('', BS, CHR '')'', CHR ''@'', BS, CHR ''w'', BS, CHR ''-'', BS, CHR ''.'',
          CHR ''='', CHR ''<'', CHR ''>'', CHR ''!'', CHR 0x27, CHR 0x22, CHR '':'', BS, CHR ''d'',
          BS, CHR ''s'', CHR '','', CHR '']'', CHR ''+'', CHR ''$''],
       ignoreCase = False,
       nodes = [Bol, Plus allowedClass, Eol] \<rparr>"

text \<open>The loop over \<open>BLOCKED_PATTERNS\<close> that collects the violations.\<close>

fun blockedViolations :: "RegExp list \<Rightarrow> string \<Rightarrow> string list" where
  "blockedViolations [] trimmed = []"
| "blockedViolations (p # ps) trimmed =
     (if test p trimmed then (''Blocked pattern: '' @ source p) # blockedViolations ps trimmed
      else blockedViolations ps trimmed)"

text \<open>
  The loop over the characters of the trimmed string; it throws as soon as the depth is
  negative, and otherwise ends with the depth and the maximum depth seen.
\<close>

fun bracketLoop :: "string \<Rightarrow> int \<Rightarrow> int \<Rightarrow> error + int \<times> int" where
  "bracketLoop [] depth maxSeenDepth = Inr (depth, maxSeenDepth)"
| "bracketLoop (c # cs) depth maxSeenDepth =
     (if c = CHR ''[''
      then (if depth + 1 < 0 then Inl (XPathValidationError ''Unbalanced brackets in XPath'' [])
            else bracketLoop cs (depth + 1) (max maxSeenDepth (depth + 1)))
      else if c = CHR '']''
      then (if depth - 1 < 0 then Inl (XPathValidationError ''Unbalanced brackets in XPath'' [])
            else bracketLoop cs (depth - 1) maxSeenDepth)
      else (if depth < 0 then Inl (XPathValidationError ''Unbalanced brackets in XPath'' [])
            else bracketLoop cs depth maxSeenDepth))"

text \<open>\<open>(trimmed.match(/\[/g) || []).length\<close>: the number of opening brackets.\<close>

definition predicateCount :: "string \<Rightarrow> int" where
  "predicateCount trimmed = int (length (filter (\<lambda>c. c = CHR ''['') trimmed))"

definition validateXPath :: "jsvalue \<Rightarrow> Config \<Rightarrow> error + string option" where
  "validateXPath xpath config =
     (case xpath of
        JNull \<Rightarrow> Inr None
      | JUndefined \<Rightarrow> Inr None
      | JString s \<Rightarrow>
          (let trimmed = trim s in
           if length trimmed = 0 then Inr None
           else if int (length trimmed) > xpathMaxLength config
           then Inl (XPathComplexityError
                  (''XPath exceeds maximum length of '' @ numberToString (xpathMaxLength config) @
                   '' characters''))
           else
             (let violations = blockedViolations BLOCKED_PATTERNS trimmed in
              if length violations > 0
              then Inl (XPathValidationError ''XPath contains blocked constructs'' violations)
              else if \<not> test ALLOWED_STRUCTURE trimmed
              then Inl (XPathValidationError ''XPath contains disallowed characters'' [])
              else
                (case bracketLoop trimmed 0 0 of
                   Inl e \<Rightarrow> Inl e
                 | Inr (depth, maxSeenDepth) \<Rightarrow>
                     if depth \<noteq> 0
                     then Inl (XPathValidationError ''Unbalanced brackets in XPath'' [])
                     else if maxSeenDepth > 5
                     then Inl (XPathComplexityError
                            (''XPath exceeds maximum nesting depth of '' @ numberToString 5))
                     else if predicateCount trimmed > 10
                     then Inl (XPathComplexityError
                            (''XPath exceeds maximum predicate count of '' @ numberToString 10))
                     else Inr (Some trimmed))))
      | _ \<Rightarrow> Inl (XPathValidationError ''XPath must be a string'' []))"

text \<open>\<open>Array.prototype.join\<close>.\<close>

fun joinWith :: "string \<Rightarrow> string list \<Rightarrow> string" where
  "joinWith sep [] = []"
| "joinWith sep [x] = x"
| "joinWith sep (x # y # ys) = x @ sep @ joinWith sep (y # ys)"



text \<open>
  An optional string parameter is \<open>None\<close> for \<open>undefined\<close>; \<open>if (startTime)\<close> is also
  false for the empty string.
\<close>

definition truthy :: "string option \<Rightarrow> bool" where
  "truthy v = (case v of None \<Rightarrow> False | Some s \<Rightarrow> s \<noteq> [])"


definition combineXPathFilters :: "string option list \<Rightarrow> string option" where
  "combineXPathFilters filters =
     (let validFilters = map the (filter (\<lambda>f. f \<noteq> None \<and> length (the f) > 0) filters)
      in if length validFilters = 0 then None
         else if length validFilters = 1 then Some (validFilters ! 0)
         else Some (validFilters ! 0))"

section \<open>The runtime: dates, the clock and the PowerShell process\<close>

text \<open>
  \<open>Date.prototype.toISOString\<close> for a time value in milliseconds since the epoch: the
  proleptic Gregorian date of the day number, four digits for the years 0..9999 and a
  sign with six digits otherwise; a time value outside the range of \<open>Date\<close> is an invalid
  date, for which the method throws \<open>RangeError\<close>.
\<close>

definition pad :: "nat \<Rightarrow> int \<Rightarrow> string" where
  "pad w n = replicate (w - length (digitsOf (nat n))) (CHR ''0'') @ digitsOf (nat n)"

definition civilFromDays :: "int \<Rightarrow> int \<times> int \<times> int" where
  "civilFromDays z0 =
     (let z = z0 + 719468;
          era = z div 146097;
          doe = z mod 146097;
          yoe = (doe - doe div 1460 + doe div 36524 - doe div 146096) div 365;
          doy = doe - (365 * yoe + yoe div 4 - yoe div 100);
          mp = (5 * doy + 2) div 153;
          d = doy - (153 * mp + 2) div 5 + 1;
          m = (if mp < 10 then mp + 3 else mp - 9);
          y = yoe + era * 400 + (if m \<le> 2 then 1 else 0)
      in (y, m, d))"

definition toISOString :: "int \<Rightarrow> error + string" where
  "toISOString t =
     (if t < - 8640000000000000 \<or> 8640000000000000 < t
      then Inl (RangeError ''Invalid time value'')
      else
        (let ms = t mod 86400000 in
         case civilFromDays (t div 86400000) of
           (y, m, d) \<Rightarrow>
             Inr ((if 0 \<le> y \<and> y \<le> 9999 then pad 4 y
                   else (if y < 0 then ''-'' else ''+'') @ pad 6 (abs y)) @
                  ''-'' @ pad 2 m @ ''-'' @ pad 2 d @ ''T'' @
                  pad 2 (ms div 3600000) @ '':'' @ pad 2 (ms div 60000 mod 60) @ '':'' @
                  pad 2 (ms div 1000 mod 60) @ ''.'' @ pad 3 (ms mod 1000) @ ''Z'')))"

section \<open>types.ts: event records\<close>

datatype EventLevel = LCritical | LError | LWarning | LInformation | LVerbose

record EventRecord =
  recordId :: int
  eventId :: int
  level :: EventLevel
  timeCreated :: string
  provider :: string
  message :: string
  computer :: string
  channel :: string
  userId :: "string option"
  task :: "int option"
  opcode :: "int option"
  keywords_field :: "string option"

datatype Severity = Critical | High | Medium

record CrashSignal =
  event :: EventRecord
  crashType :: string
  severity :: Severity
  faultingApplication :: "string option"
  faultingModule :: "string option"

section \<open>eventlog/powershell-reader.ts\<close>

record RawPowerShellEvent =
  RecordId :: int
  Id :: int
  Level :: int
  LevelDisplayName :: "string option"
  TimeCreated :: string
  ProviderName :: string
  Message :: "string option"
  MachineName :: string
  LogName :: string
  UserId :: "string option"
  Task :: "int option"
  Opcode :: "int option"
  Keywords :: "string option"

definition mapLevel :: "int \<Rightarrow> string option \<Rightarrow> EventLevel" where
  "mapLevel lv displayName =
     (let normalized = (if truthy displayName then toLowerCase (the displayName) else []) in
      if truthy displayName \<and> normalized = ''critical'' then LCritical
      else if truthy displayName \<and> normalized = ''error'' then LError
      else if truthy displayName \<and> normalized = ''warning'' then LWarning
      else if truthy displayName \<and> (normalized = ''information'' \<or> normalized = ''info'')
      then LInformation
      else if truthy displayName \<and> normalized = ''verbose'' then LVerbose
      else if lv = 1 then LCritical
      else if lv = 2 then LError
      else if lv = 3 then LWarning
      else if lv = 4 then LInformation
      else if lv = 5 then LVerbose
      else LInformation)"

definition parseEvent :: "RawPowerShellEvent \<Rightarrow> EventRecord" where
  "parseEvent raw =
     \<lparr> recordId = RecordId raw,
       eventId = Id raw,
       level = mapLevel (Level raw) (LevelDisplayName raw),
       timeCreated = TimeCreated raw,
       provider = ProviderName raw,
       message = (if truthy (Message raw) then the (Message raw) else []),
       computer = MachineName raw,
       channel = LogName raw,
       userId = UserId raw,
       task = Task raw,
       opcode = Opcode raw,
       keywords_field = Keywords raw \<rparr>"

definition escapePowerShellString :: "string \<Rightarrow> string" where
  "escapePowerShellString str =
     concat (map (\<lambda>c. if c = CHR 0x27 then [CHR 0x27, CHR 0x27] else [c]) str)"

text \<open>
  The script that \<open>queryEvents\<close> hands to \<open>executePowerShell\<close> is a fixed template; it is
  modelled by the values substituted into it. The environment of a call holds what the
  program reads from outside its arguments: the parser of \<open>new Date(string)\<close> (\<open>None\<close> is
  an invalid date, whose \<open>getTime()\<close> is NaN), the reading of \<open>Date.now()\<close>, and the
  outcome of running a script (a rejected promise is \<open>Inl\<close>).
\<close>

record Script =
  scriptLogName :: string
  scriptMaxEvents :: int
  scriptFilterXPath :: "string option"
  scriptStartTime :: "string option"
  scriptEndTime :: "string option"

record Env =
  dateParse :: "string \<Rightarrow> int option"
  dateNow :: int
  executePowerShell :: "Script \<Rightarrow> int \<Rightarrow> error + RawPowerShellEvent list"

record QueryOptions =
  xpath :: "string option"
  startTime :: "string option"
  endTime :: "string option"
  maxEvents :: "int option"

definition optionalString :: "string option \<Rightarrow> jsvalue" where
  "optionalString v = (case v of None \<Rightarrow> JUndefined | Some s \<Rightarrow> JString s)"

text \<open>The clamp of \<open>maxEvents\<close> in \<open>queryEvents\<close>.\<close>

definition clampMaxEvents :: "int option \<Rightarrow> Config \<Rightarrow> int" where
  "clampMaxEvents requested cfg =
     min (max 1 (case requested of None \<Rightarrow> 100 | Some m \<Rightarrow> m)) (maxEventsPerQuery cfg)"

text \<open>
  The time filter of \<open>queryEvents\<close> for one of its two timestamps: absent when the option
  is falsy, an error when the date is invalid, and the ISO string of the date otherwise.
\<close>

definition timeFilter :: "Env \<Rightarrow> string option \<Rightarrow> string \<Rightarrow> error + string option" where
  "timeFilter env t msg =
     (if truthy t
      then (case dateParse env (the t) of
              None \<Rightarrow> Inl (Error msg)
            | Some d \<Rightarrow> (case toISOString d of Inl e \<Rightarrow> Inl e | Inr s \<Rightarrow> Inr (Some s)))
      else Inr None)"

definition queryEvents :: "Env \<Rightarrow> string \<Rightarrow> QueryOptions \<Rightarrow> Config \<Rightarrow> error + EventRecord list" where
  "queryEvents env chan opts cfg =
     (case validateChannel (JString chan) of
        Inl e \<Rightarrow> Inl e
      | Inr validChannel \<Rightarrow>
          (case validateXPath (optionalString (xpath opts)) cfg of
             Inl e \<Rightarrow> Inl e
           | Inr validXPath \<Rightarrow>
               (case timeFilter env (startTime opts) ''Invalid startTime format'' of
                  Inl e \<Rightarrow> Inl e
                | Inr startArg \<Rightarrow>
                    (case timeFilter env (endTime opts) ''Invalid endTime format'' of
                       Inl e \<Rightarrow> Inl e
                     | Inr endArg \<Rightarrow>
                         (case executePowerShell env
                                 \<lparr> scriptLogName = escapePowerShellString validChannel,
                                   scriptMaxEvents = clampMaxEvents (maxEvents opts) cfg,
                                   scriptFilterXPath =
                                     (if truthy validXPath
                                      then Some (escapePowerShellString (the validXPath))
                                      else None),
                                   scriptStartTime = startArg,
                                   scriptEndTime = endArg \<rparr>
                                 (queryTimeoutMs cfg) of
                            Inl e \<Rightarrow> Inl e
                          | Inr rawEvents \<Rightarrow> Inr (map parseEvent rawEvents))))))"

record CrashPattern =
  providers :: "string list"
  eventIds :: "int list"

text \<open>\<open>Object.entries(CRASH_PATTERNS)\<close>: the entries in the order of the object literal.\<close>

definition CRASH_PATTERNS :: "(string \<times> CrashPattern) list" where
  "CRASH_PATTERNS =
     [ (''ApplicationCrash'',
          \<lparr> providers = [''Application Error'', ''Windows Error Reporting''],
            eventIds = [1000, 1001] \<rparr>),
       (''ApplicationHang'',
          \<lparr> providers = [''Application Hang''],
            eventIds = [1002] \<rparr>),
       (''SystemCrash'',
          \<lparr> providers = [''Microsoft-Windows-WER-SystemErrorReporting'', ''BugCheck''],
            eventIds = [1001, 1] \<rparr>),
       (''ServiceFailure'',
          \<lparr> providers = [''Service Control Manager''],
            eventIds = [7031, 7034, 7024] \<rparr>),
       (''WHEA'',
          \<lparr> providers = [''Microsoft-Windows-WHEA-Logger''],
            eventIds = [17, 18, 19, 47] \<rparr>) ]"

text \<open>
  \<open>/Faulting application name:\s*([^\r\n,]+)/i\<close> and
  \<open>/Faulting module name:\s*([^\r\n,]+)/i\<close>.
\<close>

definition faultingPattern :: "string \<Rightarrow> RegExp" where
  "faultingPattern label =
     \<lparr> source = label @ [BS, CHR ''s'', CHR ''*'', CHR ''('', CHR ''['', CHR ''^'', BS, CHR ''r'',
                             BS, CHR ''n'', CHR '','', CHR '']'', CHR ''+'', CHR '')''],
       ignoreCase = True,
       nodes = lits label @
               [spaces, Cap (Plus (Cls True [IChar (CHR 0x0D), IChar (CHR 0x0A), IChar (CHR '','')]))] \<rparr>"

definition FAULTING_APPLICATION :: RegExp where
  "FAULTING_APPLICATION = faultingPattern ''Faulting application name:''"

definition FAULTING_MODULE :: RegExp where
  "FAULTING_MODULE = faultingPattern ''Faulting module name:''"

text \<open>\<open>m = message.match(re); if (m) field = m[1].trim()\<close>.\<close>

definition extractField :: "string \<Rightarrow> RegExp \<Rightarrow> string option" where
  "extractField msg re = map_option trim (matchGroup1 msg re)"

definition severityOf :: "string \<Rightarrow> Severity" where
  "severityOf ct =
     (if ct = ''SystemCrash'' \<or> ct = ''WHEA'' then Critical
      else if ct = ''ApplicationCrash'' \<or> ct = ''ServiceFailure'' then High
      else Medium)"

text \<open>The two tests of one pattern against one event.\<close>

definition providerMatch :: "CrashPattern \<Rightarrow> EventRecord \<Rightarrow> bool" where
  "providerMatch pat ev =
     list_ex (\<lambda>p. stringIncludes (toLowerCase (provider ev)) (toLowerCase p)) (providers pat)"

definition eventIdMatch :: "CrashPattern \<Rightarrow> EventRecord \<Rightarrow> bool" where
  "eventIdMatch pat ev = arrayIncludes (eventIds pat) (eventId ev)"

text \<open>
  The inner loop over the entries of \<open>CRASH_PATTERNS\<close> for one event: at the first entry
  that matches it builds the signal and leaves the loop (\<open>break\<close>).
\<close>

fun matchCrashPattern :: "(string \<times> CrashPattern) list \<Rightarrow> EventRecord \<Rightarrow> CrashSignal option" where
  "matchCrashPattern [] ev = None"
| "matchCrashPattern ((ct, pat) # rest) ev =
     (if providerMatch pat ev \<or> eventIdMatch pat ev
      then Some \<lparr> event = ev,
                  crashType = ct,
                  severity = severityOf ct,
                  faultingApplication = extractField (message ev) FAULTING_APPLICATION,
                  faultingModule = extractField (message ev) FAULTING_MODULE \<rparr>
      else matchCrashPattern rest ev)"

text \<open>The loop over the events of one channel, pushing onto \<open>crashes\<close>.\<close>

fun scanEvents :: "EventRecord list \<Rightarrow> CrashSignal list \<Rightarrow> CrashSignal list" where
  "scanEvents [] crashes = crashes"
| "scanEvents (ev # evs) crashes =
     scanEvents evs
       (case matchCrashPattern CRASH_PATTERNS ev of
          None \<Rightarrow> crashes
        | Some c \<Rightarrow> crashes @ [c])"

definition eventIdFilters :: "string list" where
  "eventIdFilters =
     concat (map (\<lambda>(ct, pat). map (\<lambda>i. ''EventID='' @ numberToString i) (eventIds pat))
               CRASH_PATTERNS)"

definition crashXPath :: "string \<Rightarrow> string" where
  "crashXPath start =
     ''*[System[('' @ joinWith '' or '' eventIdFilters @
     '') and TimeCreated[@SystemTime>='' @ [CHR 0x27] @ start @ [CHR 0x27] @ '']]]''"

text \<open>
  The loop over the channels. \<open>validateChannel\<close> stands before the \<open>try\<close>, so its error
  leaves the function; whatever \<open>queryEvents\<close> throws is caught and the channel skipped.
\<close>

fun scanChannels ::
  "Env \<Rightarrow> Config \<Rightarrow> string \<Rightarrow> string list \<Rightarrow> CrashSignal list \<Rightarrow> error + CrashSignal list" where
  "scanChannels env cfg start [] crashes = Inr crashes"
| "scanChannels env cfg start (ch # chs) crashes =
     (case validateChannel (JString ch) of
        Inl e \<Rightarrow> Inl e
      | Inr valid \<Rightarrow>
          (case queryEvents env ch
                  \<lparr> xpath = Some (crashXPath start), startTime = None, endTime = None,
                    maxEvents = Some 200 \<rparr> cfg of
             Inl e \<Rightarrow> scanChannels env cfg start chs crashes
           | Inr events \<Rightarrow> scanChannels env cfg start chs (scanEvents events crashes)))"

text \<open>
  \<open>Array.prototype.sort\<close> with a comparator is stable; for a comparator that is a
  consistent ordering its result is the stable insertion sort below. The comparator of
  \<open>findCrashSignals\<close> subtracts two time values; when one of them is NaN the difference
  is NaN, which \<open>sort\<close> reads as 0, and the order it then produces is left to the
  implementation (the statements about the order assume that every timestamp parses).
\<close>

fun insertSorted :: "('a \<Rightarrow> 'a \<Rightarrow> int) \<Rightarrow> 'a \<Rightarrow> 'a list \<Rightarrow> 'a list" where
  "insertSorted cmp x [] = [x]"
| "insertSorted cmp x (y # ys) =
     (if cmp x y \<le> 0 then x # y # ys else y # insertSorted cmp x ys)"

definition arraySort :: "('a \<Rightarrow> 'a \<Rightarrow> int) \<Rightarrow> 'a list \<Rightarrow> 'a list" where
  "arraySort cmp xs = foldr (insertSorted cmp) xs []"

definition compareCrashes :: "Env \<Rightarrow> CrashSignal \<Rightarrow> CrashSignal \<Rightarrow> int" where
  "compareCrashes env a b =
     (case (dateParse env (timeCreated (event b)), dateParse env (timeCreated (event a))) of
        (Some tb, Some ta) \<Rightarrow> tb - ta
      | _ \<Rightarrow> 0)"

record ScanOptions =
  hours :: "int option"
  channels :: "string list option"

text \<open>The clamp of \<open>hours\<close> in \<open>findCrashSignals\<close>.\<close>

definition clampHours :: "int option \<Rightarrow> Config \<Rightarrow> int" where
  "clampHours requested cfg =
     min (max 1 (case requested of None \<Rightarrow> 24 | Some h \<Rightarrow> h)) (maxTimeRangeHours cfg)"

text \<open>The lower time bound of the scan: \<open>new Date(Date.now() - hours * 60 * 60 * 1000)\<close>.\<close>

definition scanStart :: "Env \<Rightarrow> ScanOptions \<Rightarrow> Config \<Rightarrow> int" where
  "scanStart env opts cfg = dateNow env - clampHours (hours opts) cfg * 60 * 60 * 1000"

definition findCrashSignals :: "Env \<Rightarrow> ScanOptions \<Rightarrow> Config \<Rightarrow> error + CrashSignal list" where
  "findCrashSignals env opts cfg =
     (case toISOString (scanStart env opts cfg) of
        Inl e \<Rightarrow> Inl e
      | Inr start \<Rightarrow>
          (case scanChannels env cfg start
                  (case channels opts of None \<Rightarrow> [''System'', ''Application''] | Some cs \<Rightarrow> cs) [] of
             Inl e \<Rightarrow> Inl e
           | Inr crashes \<Rightarrow> Inr (arraySort (compareCrashes env) crashes)))"

section \<open>Notions used in the statements\<close>


text \<open>
  Brackets, said without the loop: the depth of a text is the number of its opening
  brackets minus the number of its closing ones; a text is balanced when no prefix has a
  negative depth and its own depth is 0; its nesting depth is the largest depth of a
  prefix.
\<close>

definition bracketDepth :: "string \<Rightarrow> int" where
  "bracketDepth t =
     int (length (filter (\<lambda>c. c = CHR ''['') t)) - int (length (filter (\<lambda>c. c = CHR '']'') t))"

definition neverNegative :: "string \<Rightarrow> bool" where
  "neverNegative t = list_all (\<lambda>p. 0 \<le> bracketDepth p) (prefixes t)"

definition balanced :: "string \<Rightarrow> bool" where
  "balanced t = (neverNegative t \<and> bracketDepth t = 0)"

definition nestingDepth :: "string \<Rightarrow> int" where
  "nestingDepth t = fold max (map bracketDepth (prefixes t)) 0"

text \<open>A character that the class of \<open>ALLOWED_STRUCTURE\<close> admits.\<close>

definition allowedChar :: "char \<Rightarrow> bool" where
  "allowedChar c = atomMatches False allowedClass c"

text \<open>A text contains a blocked construct when an entry of the blocklist matches in it.\<close>

definition containsBlocked :: "string \<Rightarrow> bool" where
  "containsBlocked t = list_ex (\<lambda>p. test p t) BLOCKED_PATTERNS"

text \<open>The descriptions of the entries that match, in the order of the blocklist.\<close>

definition matchedRules :: "string \<Rightarrow> string list" where
  "matchedRules t =
     map (\<lambda>p. ''Blocked pattern: '' @ source p) (filter (\<lambda>p. test p t) BLOCKED_PATTERNS)"

text \<open>
  A text that reaches the bracket scan of \<open>validateXPath\<close> under a configuration: not
  empty, within the length limit, free of blocked constructs and made of allowed
  characters only.
\<close>

definition reachesScan :: "Config \<Rightarrow> string \<Rightarrow> bool" where
  "reachesScan cfg t =
     (t \<noteq> [] \<and> int (length t) \<le> xpathMaxLength cfg \<and> \<not> containsBlocked t \<and> list_all allowedChar t)"

definition tooComplex :: "error + string option \<Rightarrow> bool" where
  "tooComplex r = (case r of Inl (XPathComplexityError m) \<Rightarrow> True | _ \<Rightarrow> False)"

text \<open>The filters of a list that are defined and not empty, in their order.\<close>

definition definedNonEmpty :: "string option list \<Rightarrow> string list" where
  "definedNonEmpty fs =
     concat (map (\<lambda>f. case f of None \<Rightarrow> [] | Some x \<Rightarrow> if x = [] then [] else [x]) fs)"


definition smallCapConfig :: Config where
  "smallCapConfig = DEFAULT_CONFIG \<lparr> maxEventsPerQuery := 50 \<rparr>"













section \<open>Evaluating the character functions\<close>

definition letter5 :: "bool \<Rightarrow> bool \<Rightarrow> bool \<Rightarrow> bool \<Rightarrow> bool \<Rightarrow> bool" where
  "letter5 b0 b1 b2 b3 b4 = ((b0 \<or> b1 \<or> b2 \<or> b3 \<or> b4) \<and> \<not> (b4 \<and> b3 \<and> (b2 \<or> (b1 \<and> b0))))"

lemma isDigit_Char [code]:
  "isDigit (Char b0 b1 b2 b3 b4 b5 b6 b7) = (\<not> b7 \<and> \<not> b6 \<and> b5 \<and> b4 \<and> \<not> (b3 \<and> (b2 \<or> b1)))"
  by (cases b0; cases b1; cases b2; cases b3; cases b4; cases b5; cases b6; cases b7;
      simp add: isDigit_def)

lemma isWordChar_Char [code]:
  "isWordChar (Char b0 b1 b2 b3 b4 b5 b6 b7) =
     (\<not> b7 \<and> ((b6 \<and> letter5 b0 b1 b2 b3 b4) \<or> (\<not> b6 \<and> b5 \<and> b4 \<and> \<not> (b3 \<and> (b2 \<or> b1))) \<or>
       (b6 \<and> \<not> b5 \<and> b4 \<and> b3 \<and> b2 \<and> b1 \<and> b0)))"
  by (cases b0; cases b1; cases b2; cases b3; cases b4; cases b5; cases b6; cases b7;
      simp add: isWordChar_def isDigit_def letter5_def)

lemma isWhiteSpace_Char [code]:
  "isWhiteSpace (Char b0 b1 b2 b3 b4 b5 b6 b7) =
     (\<not> b6 \<and> \<not> b4 \<and>
       ((\<not> b7 \<and> \<not> b5 \<and> b3 \<and> ((\<not> b2 \<and> (b1 \<or> b0)) \<or> (b2 \<and> \<not> b1))) \<or>
        (b5 \<and> \<not> b3 \<and> \<not> b2 \<and> \<not> b1 \<and> \<not> b0)))"
  by (cases b0; cases b1; cases b2; cases b3; cases b4; cases b5; cases b6; cases b7;
      simp add: isWhiteSpace_def)

lemma canonicalize_Char [code]:
  "canonicalize (Char b0 b1 b2 b3 b4 b5 b6 b7) =
     Char b0 b1 b2 b3 b4
       (b5 \<and> \<not> (b6 \<and> ((\<not> b7 \<and> letter5 b0 b1 b2 b3 b4) \<or> (b7 \<and> \<not> (b0 \<and> b1 \<and> b2 \<and> b4)))))
       b6 b7"
  by (cases b0; cases b1; cases b2; cases b3; cases b4; cases b5; cases b6; cases b7;
      simp add: canonicalize_def letter5_def char_of_def bit_Suc_0_iff)

lemma lowerChar_Char [code]:
  "lowerChar (Char b0 b1 b2 b3 b4 b5 b6 b7) =
     Char b0 b1 b2 b3 b4
       (b5 \<or> (b6 \<and> ((\<not> b7 \<and> letter5 b0 b1 b2 b3 b4) \<or> (b7 \<and> \<not> (b0 \<and> b1 \<and> b2 \<and> b4)))))
       b6 b7"
  by (cases b0; cases b1; cases b2; cases b3; cases b4; cases b5; cases b6; cases b7;
      simp add: lowerChar_def letter5_def char_of_def bit_Suc_0_iff)

section \<open>Lists and strings\<close>

lemma arrayIncludes_set: "arrayIncludes xs y = (y \<in> set xs)"
  by (induction xs) auto

lemma startsWith_prefix: "startsWith s p = prefix p s"
  by (induction s p rule: startsWith.induct) auto

lemma stringIncludes_iff: "stringIncludes s p = (\<exists>a b. s = a @ p @ b)"
proof (induction s)
  case Nil
  then show ?case by auto
next
  case (Cons x xs)
  have "(\<exists>a b. x # xs = a @ p @ b) = (prefix p (x # xs) \<or> (\<exists>a b. xs = a @ p @ b))"
  proof
    assume "\<exists>a b. x # xs = a @ p @ b"
    then obtain a b where ab: "x # xs = a @ p @ b" by blast
    show "prefix p (x # xs) \<or> (\<exists>a b. xs = a @ p @ b)"
    proof (cases a)
      case Nil
      with ab show ?thesis by (auto simp: prefix_def)
    next
      case (Cons y ys)
      with ab have "xs = ys @ p @ b" by simp
      then show ?thesis by blast
    qed
  next
    assume "prefix p (x # xs) \<or> (\<exists>a b. xs = a @ p @ b)"
    then show "\<exists>a b. x # xs = a @ p @ b"
    proof
      assume "prefix p (x # xs)"
      then obtain b where "x # xs = p @ b" by (auto simp: prefix_def)
      then have "x # xs = [] @ p @ b" by simp
      then show ?thesis by blast
    next
      assume "\<exists>a b. xs = a @ p @ b"
      then obtain a b where "xs = a @ p @ b" by blast
      then have "x # xs = (x # a) @ p @ b" by simp
      then show ?thesis by blast
    qed
  qed
  with Cons show ?case by (simp add: startsWith_prefix)
qed

lemma dropWhile_rev_dropWhile:
  "dropWhile P (rev (dropWhile P (rev (dropWhile P s)))) = rev (dropWhile P (rev (dropWhile P s)))"
proof -
  let ?a = "dropWhile P s"
  let ?b = "rev (dropWhile P (rev ?a))"
  have a: "?a = ?b @ rev (takeWhile P (rev ?a))"
  proof -
    have "rev (rev ?a) = rev (takeWhile P (rev ?a) @ dropWhile P (rev ?a))"
      by (simp only: takeWhile_dropWhile_id)
    then show ?thesis by (simp only: rev_rev_ident rev_append)
  qed
  show ?thesis
  proof (cases "?b = []")
    case True
    then show ?thesis by (metis dropWhile.simps(1))
  next
    case False
    then have "hd ?b = hd ?a" using a by (metis hd_append2)
    moreover have "?a \<noteq> []" using False a by (metis Nil_is_append_conv)
    then have "\<not> P (hd ?a)" by (rule hd_dropWhile)
    ultimately have "\<not> P (hd ?b)" by simp
    with False show ?thesis by (simp add: dropWhile_eq_self_iff)
  qed
qed

lemma trim_trim: "trim (trim s) = trim s"
proof -
  let ?b = "rev (dropWhile isWhiteSpace (rev (dropWhile isWhiteSpace s)))"
  have 1: "dropWhile isWhiteSpace ?b = ?b" by (rule dropWhile_rev_dropWhile)
  show ?thesis unfolding trim_def by (simp only: 1 rev_rev_ident dropWhile_idem)
qed

section \<open>The bracket scan\<close>

lemma bracketDepth_Nil: "bracketDepth [] = 0"
  by (simp add: bracketDepth_def)

lemma bracketDepth_Cons:
  "bracketDepth (c # cs) =
     (if c = CHR ''['' then 1 else if c = CHR '']'' then - 1 else 0) + bracketDepth cs"
  by (simp add: bracketDepth_def)

lemma fold_max_mono: "(m::int) \<le> m' \<Longrightarrow> fold max xs m \<le> fold max xs m'"
  by (induction xs arbitrary: m m') auto

lemma fold_max_absorb: "(d::int) \<le> m \<Longrightarrow> fold max xs (max m d) = fold max xs m"
  by (simp add: max_def)

lemma fold_max_ge: "(m::int) \<le> fold max xs m"
proof (induction xs arbitrary: m)
  case Nil
  then show ?case by simp
next
  case (Cons x xs)
  have "m \<le> max x m" by simp
  also have "\<dots> \<le> fold max xs (max x m)" by (rule Cons.IH)
  finally show ?case by simp
qed

lemma bracketLoop_eq:
  "0 \<le> d \<Longrightarrow> d \<le> m \<Longrightarrow>
   bracketLoop t d m =
     (if list_all (\<lambda>p. 0 \<le> d + bracketDepth p) (prefixes t)
      then Inr (d + bracketDepth t, fold max (map (\<lambda>p. d + bracketDepth p) (prefixes t)) m)
      else Inl (XPathValidationError ''Unbalanced brackets in XPath'' []))"
proof (induction t arbitrary: d m)
  case Nil
  then show ?case by (simp add: bracketDepth_Nil max_def)
next
  case (Cons c cs)
  have pre: "prefixes (c # cs) = [] # map ((#) c) (prefixes cs)" by simp
  show ?case
  proof (cases "c = CHR ''[''")
    case True
    have ih: "bracketLoop cs (d + 1) (max m (d + 1)) =
      (if list_all (\<lambda>p. 0 \<le> d + 1 + bracketDepth p) (prefixes cs)
       then Inr (d + 1 + bracketDepth cs,
                 fold max (map (\<lambda>p. d + 1 + bracketDepth p) (prefixes cs)) (max m (d + 1)))
       else Inl (XPathValidationError ''Unbalanced brackets in XPath'' []))"
      using Cons.prems by (intro Cons.IH) auto
    have hd: "prefixes cs = [] # tl (prefixes cs)" by (cases cs) auto
    have mx: "fold max (map (\<lambda>p. d + 1 + bracketDepth p) (prefixes cs)) (max m (d + 1)) =
              fold max (map (\<lambda>p. d + 1 + bracketDepth p) (prefixes cs)) m"
    proof -
      have "fold max (map (\<lambda>p. d + 1 + bracketDepth p) ([] # tl (prefixes cs))) (max m (d + 1)) =
            fold max (map (\<lambda>p. d + 1 + bracketDepth p) ([] # tl (prefixes cs))) m"
        by (simp add: bracketDepth_Nil max_def)
      with hd show ?thesis by simp
    qed
    show ?thesis
      using True Cons.prems ih mx
      by (simp add: bracketDepth_Cons bracketDepth_Nil list_all_iff o_def max_absorb2 add.assoc)
  next
    case False
    note notOpen = False
    show ?thesis
    proof (cases "c = CHR '']''")
      case True
      show ?thesis
      proof (cases "d - 1 < 0")
        case True
        then have "\<not> 0 \<le> d + bracketDepth [c]" using \<open>c = CHR '']''\<close> by (simp add: bracketDepth_Cons bracketDepth_Nil)
        moreover have "[c] \<in> set (prefixes (c # cs))" by simp
        ultimately have "\<not> list_all (\<lambda>p. 0 \<le> d + bracketDepth p) (prefixes (c # cs))"
          unfolding list_all_iff by blast
        with True \<open>c = CHR '']''\<close> show ?thesis by simp
      next
        case False
        have ih: "bracketLoop cs (d - 1) m =
          (if list_all (\<lambda>p. 0 \<le> d - 1 + bracketDepth p) (prefixes cs)
           then Inr (d - 1 + bracketDepth cs, fold max (map (\<lambda>p. d - 1 + bracketDepth p) (prefixes cs)) m)
           else Inl (XPathValidationError ''Unbalanced brackets in XPath'' []))"
          using Cons.prems False by (intro Cons.IH) auto
        show ?thesis
          using \<open>c = CHR '']''\<close> False Cons.prems ih
          by (simp add: bracketDepth_Cons bracketDepth_Nil list_all_iff o_def max_absorb2 algebra_simps)
      qed
    next
      case False
      have ih: "bracketLoop cs d m =
          (if list_all (\<lambda>p. 0 \<le> d + bracketDepth p) (prefixes cs)
           then Inr (d + bracketDepth cs, fold max (map (\<lambda>p. d + bracketDepth p) (prefixes cs)) m)
           else Inl (XPathValidationError ''Unbalanced brackets in XPath'' []))"
        using Cons.prems by (intro Cons.IH) auto
      show ?thesis
        using notOpen False Cons.prems ih
        by (simp add: bracketDepth_Cons bracketDepth_Nil list_all_iff o_def max_absorb2 algebra_simps)
    qed
  qed
qed

lemma bracketLoop_start:
  "bracketLoop t 0 0 =
     (if neverNegative t then Inr (bracketDepth t, nestingDepth t)
      else Inl (XPathValidationError ''Unbalanced brackets in XPath'' []))"
  using bracketLoop_eq [of 0 0 t] by (simp add: neverNegative_def nestingDepth_def)

section \<open>The whitelist expression\<close>

lemma matchHere_Star_Eol:
  "matchHere ic [Star a, Eol] prev s =
     (if list_all (atomMatches ic a) s then Some [s, []] else None)"
  by (induction s arbitrary: prev) simp_all

lemma matchHere_Plus_Eol:
  "matchHere ic [Plus a, Eol] prev s =
     (if s \<noteq> [] \<and> list_all (atomMatches ic a) s then Some [s, []] else None)"
  by (cases s) (simp_all add: matchHere_Star_Eol)

lemma searchFrom_Bol_later: "searchFrom ic (Bol # r) (Some x) s = None"
  by (induction s arbitrary: x) simp_all

lemma searchFrom_Bol: "searchFrom ic (Bol # r) None s = matchHere ic (Bol # r) None s"
  by (cases s) (simp_all add: searchFrom_Bol_later split: option.split)

lemma exec_ALLOWED_STRUCTURE:
  "exec ALLOWED_STRUCTURE s =
     (if s \<noteq> [] \<and> list_all allowedChar s then Some [[], s, []] else None)"
proof -
  have "list_all (atomMatches False allowedClass) s = list_all allowedChar s"
    by (simp add: allowedChar_def [abs_def])
  then show ?thesis
    by (simp add: exec_def ALLOWED_STRUCTURE_def searchFrom_Bol matchHere_Plus_Eol)
qed

lemma test_ALLOWED_STRUCTURE: "test ALLOWED_STRUCTURE s = (s \<noteq> [] \<and> list_all allowedChar s)"
  by (simp add: test_def exec_ALLOWED_STRUCTURE)

lemma allowedChar_iff:
  "allowedChar c =
     (isWhiteSpace c \<or> isWordChar c \<or> c \<in> set ''*[]/()@-.=<>!:,'' \<or> c = CHR 0x27 \<or> c = CHR 0x22)"
  by (auto simp: allowedChar_def allowedClass_def isWordChar_def)

section \<open>The steps of validateXPath\<close>

lemma blockedViolations_eq:
  "blockedViolations ps t = map (\<lambda>p. ''Blocked pattern: '' @ source p) (filter (\<lambda>p. test p t) ps)"
  by (induction ps) simp_all

lemma matchedRules_empty: "(matchedRules t = []) = (\<not> containsBlocked t)"
  by (simp add: matchedRules_def containsBlocked_def filter_empty_conv list_ex_iff)

lemma numberToString_5: "numberToString 5 = ''5''"
  by code_simp

lemma numberToString_10: "numberToString 10 = ''10''"
  by code_simp

lemma validateXPath_string:
  "validateXPath (JString s) cfg =
     (if trim s = [] then Inr None
      else if xpathMaxLength cfg < int (length (trim s))
      then Inl (XPathComplexityError
             (''XPath exceeds maximum length of '' @ numberToString (xpathMaxLength cfg) @
              '' characters''))
      else if containsBlocked (trim s)
      then Inl (XPathValidationError ''XPath contains blocked constructs'' (matchedRules (trim s)))
      else if \<not> list_all allowedChar (trim s)
      then Inl (XPathValidationError ''XPath contains disallowed characters'' [])
      else if \<not> balanced (trim s)
      then Inl (XPathValidationError ''Unbalanced brackets in XPath'' [])
      else if 5 < nestingDepth (trim s)
      then Inl (XPathComplexityError ''XPath exceeds maximum nesting depth of 5'')
      else if 10 < predicateCount (trim s)
      then Inl (XPathComplexityError ''XPath exceeds maximum predicate count of 10'')
      else Inr (Some (trim s)))"
proof -
  have v: "blockedViolations BLOCKED_PATTERNS (trim s) = matchedRules (trim s)"
    by (simp add: blockedViolations_eq matchedRules_def)
  show ?thesis
    unfolding validateXPath_def
    by (simp add: Let_def v matchedRules_empty test_ALLOWED_STRUCTURE bracketLoop_start
        balanced_def numberToString_5 numberToString_10)
qed


section \<open>Sequences of single characters\<close>








section \<open>The lower time bound of the scan\<close>




section \<open>Claims about the channel guard and the filter validator\<close>


text \<open>
  Claim C3. A filter whose trimmed text is not empty, is within the length limit of the
  configuration (500 by default), is free of every blocked construct, consists of
  allowed characters only, is bracket-balanced, nests at most 5 deep and has at most 10
  opening brackets is returned as its trimmed text, unchanged; and validating that
  result again returns it again.
\<close>

theorem validateXPath_identity:
  assumes "reachesScan cfg (trim s)"
    and "balanced (trim s)"
    and "nestingDepth (trim s) \<le> 5"
    and "predicateCount (trim s) \<le> 10"
  shows "validateXPath (JString s) cfg = Inr (Some (trim s)) \<and>
         validateXPath (JString (trim s)) cfg = Inr (Some (trim s))"
proof -
  have 1: "validateXPath (JString s) cfg = Inr (Some (trim s))"
    using assms by (simp add: validateXPath_string reachesScan_def)
  have 2: "validateXPath (JString (trim s)) cfg = Inr (Some (trim s))"
    using assms by (simp add: validateXPath_string reachesScan_def trim_trim)
  from 1 2 show ?thesis by simp
qed

theorem validateXPath_identity_witness:
  "validateXPath (JString ''  *[System[EventID=1000 and Level>=2]] '') DEFAULT_CONFIG =
     Inr (Some ''*[System[EventID=1000 and Level>=2]]'') \<and>
   validateXPath (JString ''*[System[EventID=1000 and Level>=2]]'') DEFAULT_CONFIG =
     Inr (Some ''*[System[EventID=1000 and Level>=2]]'')"
proof -
  let ?s = "''  *[System[EventID=1000 and Level>=2]] ''"
  have t: "trim ?s = ''*[System[EventID=1000 and Level>=2]]''" by code_simp
  have 1: "reachesScan DEFAULT_CONFIG (trim ?s)" unfolding t by code_simp
  have 2: "balanced (trim ?s)" unfolding t by code_simp
  have 3: "nestingDepth (trim ?s) \<le> 5" unfolding t by code_simp
  have 4: "predicateCount (trim ?s) \<le> 10" unfolding t by code_simp
  show ?thesis using validateXPath_identity [OF 1 2 3 4] unfolding t by simp
qed

text \<open>
  Claim C4. Of the filters that reach the bracket scan: a balanced one is accepted when
  its nesting depth is at most 5 (so at exactly 5) and it has at most 10 opening
  brackets (so at exactly 10); a balanced one deeper than 5 (so at 6) fails with
  \<open>XPathComplexityError\<close>, and so does one of depth at most 5 with more than 10 opening
  brackets (so with 11); one whose depth is negative after some prefix, or not 0 at the
  end, fails with \<open>XPathValidationError\<close> for unbalanced brackets.
\<close>

theorem validateXPath_limits:
  assumes "reachesScan cfg (trim s)"
  shows "(balanced (trim s) \<and> nestingDepth (trim s) \<le> 5 \<and> predicateCount (trim s) \<le> 10 \<longrightarrow>
            validateXPath (JString s) cfg = Inr (Some (trim s))) \<and>
         (balanced (trim s) \<and> 5 < nestingDepth (trim s) \<longrightarrow>
            validateXPath (JString s) cfg =
              Inl (XPathComplexityError ''XPath exceeds maximum nesting depth of 5'')) \<and>
         (balanced (trim s) \<and> nestingDepth (trim s) \<le> 5 \<and> 10 < predicateCount (trim s) \<longrightarrow>
            validateXPath (JString s) cfg =
              Inl (XPathComplexityError ''XPath exceeds maximum predicate count of 10'')) \<and>
         (\<not> neverNegative (trim s) \<or> bracketDepth (trim s) \<noteq> 0 \<longrightarrow>
            validateXPath (JString s) cfg =
              Inl (XPathValidationError ''Unbalanced brackets in XPath'' []))"
  using assms by (auto simp: validateXPath_string reachesScan_def balanced_def)

theorem validateXPath_limits_witness:
  "nestingDepth ''*[a[b[c[d[e]]]]]'' = 5 \<and>
   validateXPath (JString ''*[a[b[c[d[e]]]]]'') DEFAULT_CONFIG = Inr (Some ''*[a[b[c[d[e]]]]]'') \<and>
   nestingDepth ''*[a[b[c[d[e[f]]]]]]'' = 6 \<and>
   validateXPath (JString ''*[a[b[c[d[e[f]]]]]]'') DEFAULT_CONFIG =
     Inl (XPathComplexityError ''XPath exceeds maximum nesting depth of 5'') \<and>
   predicateCount ''*[a][b][c][d][e][f][g][h][i][j]'' = 10 \<and>
   validateXPath (JString ''*[a][b][c][d][e][f][g][h][i][j]'') DEFAULT_CONFIG =
     Inr (Some ''*[a][b][c][d][e][f][g][h][i][j]'') \<and>
   predicateCount ''*[a][b][c][d][e][f][g][h][i][j][k]'' = 11 \<and>
   validateXPath (JString ''*[a][b][c][d][e][f][g][h][i][j][k]'') DEFAULT_CONFIG =
     Inl (XPathComplexityError ''XPath exceeds maximum predicate count of 10'') \<and>
   validateXPath (JString ''*[System[EventID=1000]'') DEFAULT_CONFIG =
     Inl (XPathValidationError ''Unbalanced brackets in XPath'' []) \<and>
   validateXPath (JString ''*[System[EventID=1000]]]'') DEFAULT_CONFIG =
     Inl (XPathValidationError ''Unbalanced brackets in XPath'' [])"
proof -
  let ?a = "''*[a[b[c[d[e]]]]]''"
  let ?b = "''*[a[b[c[d[e[f]]]]]]''"
  let ?c = "''*[a][b][c][d][e][f][g][h][i][j]''"
  let ?d = "''*[a][b][c][d][e][f][g][h][i][j][k]''"
  let ?e = "''*[System[EventID=1000]''"
  let ?f = "''*[System[EventID=1000]]]''"
  have ta: "trim ?a = ?a" and tb: "trim ?b = ?b" and tc: "trim ?c = ?c"
    and td: "trim ?d = ?d" and te: "trim ?e = ?e" and tf: "trim ?f = ?f"
    by code_simp+
  have ra: "reachesScan DEFAULT_CONFIG (trim ?a)" unfolding ta by code_simp
  have rb: "reachesScan DEFAULT_CONFIG (trim ?b)" unfolding tb by code_simp
  have rc: "reachesScan DEFAULT_CONFIG (trim ?c)" unfolding tc by code_simp
  have rd: "reachesScan DEFAULT_CONFIG (trim ?d)" unfolding td by code_simp
  have re: "reachesScan DEFAULT_CONFIG (trim ?e)" unfolding te by code_simp
  have rf: "reachesScan DEFAULT_CONFIG (trim ?f)" unfolding tf by code_simp
  have a: "balanced ?a" "nestingDepth ?a = 5" "predicateCount ?a = 5" by code_simp+
  have b: "balanced ?b" "nestingDepth ?b = 6" by code_simp+
  have c: "balanced ?c" "nestingDepth ?c = 1" "predicateCount ?c = 10" by code_simp+
  have d: "balanced ?d" "nestingDepth ?d = 1" "predicateCount ?d = 11" by code_simp+
  have e: "bracketDepth ?e = 1" by code_simp
  have f: "\<not> neverNegative ?f" by code_simp
  have 1: "validateXPath (JString ?a) DEFAULT_CONFIG = Inr (Some ?a)"
    using validateXPath_limits [OF ra] a unfolding ta by simp
  have 2: "validateXPath (JString ?b) DEFAULT_CONFIG =
             Inl (XPathComplexityError ''XPath exceeds maximum nesting depth of 5'')"
    using validateXPath_limits [OF rb] b unfolding tb by simp
  have 3: "validateXPath (JString ?c) DEFAULT_CONFIG = Inr (Some ?c)"
    using validateXPath_limits [OF rc] c unfolding tc by simp
  have 4: "validateXPath (JString ?d) DEFAULT_CONFIG =
             Inl (XPathComplexityError ''XPath exceeds maximum predicate count of 10'')"
    using validateXPath_limits [OF rd] d unfolding td by simp
  have 5: "validateXPath (JString ?e) DEFAULT_CONFIG =
             Inl (XPathValidationError ''Unbalanced brackets in XPath'' [])"
    using validateXPath_limits [OF re] e unfolding te by simp
  have 6: "validateXPath (JString ?f) DEFAULT_CONFIG =
             Inl (XPathValidationError ''Unbalanced brackets in XPath'' [])"
    using validateXPath_limits [OF rf] f unfolding tf by simp
  from 1 2 3 4 5 6 a(2) b(2) c(3) d(3) show ?thesis by simp
qed




section \<open>Claims about the query limits\<close>

text \<open>
  Claim C7, as stated, fails. The code computes \<open>min (max 1 (requested ?? 100)) maxCap\<close>
  with the literal default 100. With a cap of 50 an absent request gives 50, not the
  default; with the default configuration it gives 100, which is not the configured
  cap of 1000 either; and with a cap of 0 the code returns 0 where the claim's formula
  \<open>max 1 (min \<dots>)\<close> gives 1.
\<close>

theorem clampMaxEvents_counterexample:
  "clampMaxEvents None smallCapConfig = 50 \<and>
   clampMaxEvents None DEFAULT_CONFIG = 100 \<and>
   maxEventsPerQuery DEFAULT_CONFIG = 1000 \<and>
   clampMaxEvents (Some 5) (DEFAULT_CONFIG \<lparr> maxEventsPerQuery := 0 \<rparr>) = 0 \<and>
   max 1 (min 5 (maxEventsPerQuery (DEFAULT_CONFIG \<lparr> maxEventsPerQuery := 0 \<rparr>))) = (1::int)"
  by (simp add: clampMaxEvents_def smallCapConfig_def DEFAULT_CONFIG_def)

text \<open>
  Claim C7, amended. For a cap of at least 1 the clamp is
  \<open>max 1 (min (requested ?? 100) maxCap)\<close>, it lies between 1 and the cap, and a request
  of 0 gives 1; for a cap of at most 999999 a request of 999999 gives the cap; an absent
  request gives \<open>min 100 maxCap\<close>, which is the default 100 when the cap is at least 100.
\<close>

theorem clampMaxEvents_amended:
  "(1 \<le> maxEventsPerQuery cfg \<longrightarrow>
      clampMaxEvents r cfg =
        max 1 (min (case r of None \<Rightarrow> 100 | Some m \<Rightarrow> m) (maxEventsPerQuery cfg)) \<and>
      1 \<le> clampMaxEvents r cfg \<and> clampMaxEvents r cfg \<le> maxEventsPerQuery cfg \<and>
      clampMaxEvents (Some 0) cfg = 1) \<and>
   (maxEventsPerQuery cfg \<le> 999999 \<longrightarrow>
      clampMaxEvents (Some 999999) cfg = maxEventsPerQuery cfg) \<and>
   clampMaxEvents None cfg = min 100 (maxEventsPerQuery cfg) \<and>
   (100 \<le> maxEventsPerQuery cfg \<longrightarrow> clampMaxEvents None cfg = 100)"
  by (auto simp: clampMaxEvents_def split: option.splits)

theorem clampMaxEvents_amended_witness:
  "clampMaxEvents (Some 0) DEFAULT_CONFIG = 1 \<and>
   clampMaxEvents (Some 999999) DEFAULT_CONFIG = 1000 \<and>
   clampMaxEvents (Some 250) DEFAULT_CONFIG = max 1 (min 250 1000) \<and>
   clampMaxEvents None DEFAULT_CONFIG = 100"
proof -
  have m: "maxEventsPerQuery DEFAULT_CONFIG = 1000" by (simp add: DEFAULT_CONFIG_def)
  have 1: "1 \<le> maxEventsPerQuery DEFAULT_CONFIG" by (simp add: m)
  have 2: "maxEventsPerQuery DEFAULT_CONFIG \<le> 999999" by (simp add: m)
  have 3: "100 \<le> maxEventsPerQuery DEFAULT_CONFIG" by (simp add: m)
  show ?thesis
    using clampMaxEvents_amended [of DEFAULT_CONFIG "Some 250"] 1 2 3 by (simp add: m)
qed

section \<open>Claims about combining filters\<close>

text \<open>
  Claim C10. \<open>combineXPathFilters\<close> returns no filter when the list has no defined
  non-empty filter, and otherwise the first such filter alone, whatever follows it: the
  other filters are discarded and nothing is conjoined.
\<close>

theorem combineXPathFilters_first:
  "combineXPathFilters fs =
     (case definedNonEmpty fs of [] \<Rightarrow> None | f # others \<Rightarrow> Some f) \<and>
   combineXPathFilters (Some (c # cs) # rest) = Some (c # cs) \<and>
   combineXPathFilters [None, Some ''*[System[EventID=1]]'', Some [], Some ''*[System[Level=2]]''] =
     Some ''*[System[EventID=1]]''"
proof -
  have v: "map the (filter (\<lambda>f. f \<noteq> None \<and> length (the f) > 0) gs) = definedNonEmpty gs" for gs
    by (induction gs) (auto simp: definedNonEmpty_def split: option.splits)
  have g: "combineXPathFilters gs =
             (case definedNonEmpty gs of [] \<Rightarrow> None | f # others \<Rightarrow> Some f)" for gs
    unfolding combineXPathFilters_def Let_def v
    by (cases "definedNonEmpty gs") simp_all
  show ?thesis
    by (simp add: g) (simp add: definedNonEmpty_def)
qed

section \<open>Claims about timestamps and the clock\<close>







end
